theory Spec2Isabelle
  imports Complex_Main
begin

section \<open>maproxy: the session engine, the proxy server and the IO manager\<close>

text \<open>
  A shallow embedding of \<^verbatim>\<open>src/maproxy.py\<close>. Every method of the Python classes
  \<^verbatim>\<open>Session\<close>, \<^verbatim>\<open>ProxyServer\<close> and \<^verbatim>\<open>IOManager\<close> that is used below is a HOL
  function of the same name that takes the object and returns the updated object.

  The Tornado streams, servers and the IO loop are not part of the repository. A stream
  is recorded by what the session asked of it; whether a call on a stream returns or
  raises \<^verbatim>\<open>tornado.iostream.StreamClosedError\<close> is an input of the model (an
  \<open>outcome\<close>), one for each stream call a method can make.
\<close>

subsection \<open>Values\<close>

datatype State = CLOSED | CONNECTING | CONNECTED

text \<open>The exceptions that occur; an assertion carries its message (empty when the source gives none).\<close>

datatype error = AssertionError string | StreamClosedError | ValueError

datatype outcome = Completes | Raises_StreamClosedError

type_synonym bytes = string

text \<open>An item handed to a write: a chunk, or \<open>None\<close>, the queued close request.\<close>

type_synonym item = "bytes option"

text \<open>The values the \<^verbatim>\<open>*_ssl_options\<close> arguments take: None, a bool, or an options dictionary.\<close>

datatype ssl_options = PyNone | PyBool bool | PyDict "(string \<times> string) list"

datatype stream_kind = IOStream | SSLIOStream ssl_options

record stream =
  kind :: stream_kind
  nodelay :: bool
  close_callback_set :: bool
  connect_target :: "(string \<times> nat) option"
  written :: "bytes list"
  close_requests :: nat
  read_requests :: nat

definition new_stream :: "stream_kind \<Rightarrow> stream" where
  "new_stream k = \<lparr>kind = k, nodelay = False, close_callback_set = False,
     connect_target = None, written = [], close_requests = 0, read_requests = 0\<rparr>"

text \<open>The effect of a stream call that returns normally.\<close>

definition stream_write :: "bytes \<Rightarrow> stream \<Rightarrow> stream" where
  "stream_write d st = st\<lparr>written := written st @ [d]\<rparr>"

definition stream_close :: "stream \<Rightarrow> stream" where
  "stream_close st = st\<lparr>close_requests := Suc (close_requests st)\<rparr>"

definition stream_read_until_close :: "stream \<Rightarrow> stream" where
  "stream_read_until_close st = st\<lparr>read_requests := Suc (read_requests st)\<rparr>"

subsection \<open>ProxyServer\<close>

text \<open>
  \<open>SessionsList\<close> holds the identities of the live sessions, in the order of the Python
  list. \<open>accepting\<close> stands for the listening state of the Tornado \<^verbatim>\<open>TCPServer\<close> base
  class: \<^verbatim>\<open>start()\<close> sets it and \<^verbatim>\<open>stop()\<close> clears it.
\<close>

record ProxyServer =
  target_server :: string
  target_port :: nat
  client_ssl_options :: ssl_options
  server_ssl_options :: ssl_options
  SessionsList :: "nat list"
  accepting :: bool

definition ProxyServer_init :: "string \<Rightarrow> nat \<Rightarrow> ssl_options \<Rightarrow> ssl_options \<Rightarrow> ProxyServer" where
  "ProxyServer_init tserver tport client_opts server_opts =
    (let p0 = \<lparr>target_server = tserver, target_port = tport,
                client_ssl_options = client_opts, server_ssl_options = server_opts,
                SessionsList = [], accepting = False\<rparr>;
         p1 = (if server_ssl_options p0 = PyBool True
               then p0\<lparr>server_ssl_options := PyDict []\<rparr> else p0);
         p2 = (if server_ssl_options p1 = PyBool False
               then p1\<lparr>server_ssl_options := PyNone\<rparr> else p1);
         p3 = (if client_ssl_options p2 = PyBool False
               then p2\<lparr>client_ssl_options := PyNone\<rparr> else p2)
     in p3)"


subsection \<open>Session\<close>

text \<open>
  \<open>sid\<close> is the identity of the session object and \<open>proxy\<close> the parent server as this
  session sees it. \<open>remove_session_calls\<close> is a ghost field: it counts the calls of
  \<^verbatim>\<open>Session.remove_session\<close> and nothing reads it.
\<close>

record session =
  sid :: nat
  proxy :: ProxyServer
  c2p_reading :: bool
  c2p_writing :: bool
  p2s_writing :: bool
  p2s_reading :: bool
  c2p_stream :: stream
  c2p_address :: "string \<times> nat"
  c2p_state :: State
  c2s_queued_data :: "item list"
  s2c_queued_data :: "item list"
  p2s_stream :: stream
  p2s_state :: State
  remove_session_calls :: nat

text \<open>
  A method either returns or raises; in both cases the assignments made so far stay
  in the object.
\<close>

datatype result = Return session | Raise error session

fun state_of :: "result \<Rightarrow> session" where
  "state_of (Return s) = s"
| "state_of (Raise e s) = s"

fun error_of :: "result \<Rightarrow> error option" where
  "error_of (Return s) = None"
| "error_of (Raise e s) = Some e"

fun and_then :: "result \<Rightarrow> (session \<Rightarrow> result) \<Rightarrow> result" where
  "and_then (Return s) f = f s"
| "and_then (Raise e s) f = Raise e s"

subsubsection \<open>Start read\<close>

definition c2p_start_read :: "outcome \<Rightarrow> session \<Rightarrow> result" where
  "c2p_start_read io s =
    (if c2p_reading s then Raise (AssertionError []) s
     else let s1 = s\<lparr>c2p_reading := True\<rparr> in
       (case io of
          Completes \<Rightarrow> Return (s1\<lparr>c2p_stream := stream_read_until_close (c2p_stream s1)\<rparr>)
        | Raises_StreamClosedError \<Rightarrow> Return (s1\<lparr>c2p_reading := False\<rparr>)))"

definition p2s_start_read :: "outcome \<Rightarrow> session \<Rightarrow> result" where
  "p2s_start_read io s =
    (if p2s_reading s then Raise (AssertionError []) s
     else let s1 = s\<lparr>p2s_reading := True\<rparr> in
       (case io of
          Completes \<Rightarrow> Return (s1\<lparr>p2s_stream := stream_read_until_close (p2s_stream s1)\<rparr>)
        | Raises_StreamClosedError \<Rightarrow> Return (s1\<lparr>p2s_reading := False\<rparr>)))"

subsubsection \<open>Write to stream\<close>

text \<open>\<^verbatim>\<open>_c2p_io_write\<close> and \<^verbatim>\<open>_p2s_io_write\<close> (an Isabelle name cannot start with an underscore).\<close>

definition c2p_io_write :: "outcome \<Rightarrow> item \<Rightarrow> session \<Rightarrow> result" where
  "c2p_io_write io data s =
    (case data of
       None \<Rightarrow>
         (let s1 = s\<lparr>c2p_state := CLOSED\<rparr> in
          case io of
            Completes \<Rightarrow> Return (s1\<lparr>c2p_stream := stream_close (c2p_stream s1)\<rparr>)
          | Raises_StreamClosedError \<Rightarrow> Return (s1\<lparr>c2p_writing := False\<rparr>))
     | Some d \<Rightarrow>
         (let s1 = s\<lparr>c2p_writing := True\<rparr> in
          case io of
            Completes \<Rightarrow> Return (s1\<lparr>c2p_stream := stream_write d (c2p_stream s1)\<rparr>)
          | Raises_StreamClosedError \<Rightarrow> Return (s1\<lparr>c2p_writing := False\<rparr>)))"

definition p2s_io_write :: "outcome \<Rightarrow> item \<Rightarrow> session \<Rightarrow> result" where
  "p2s_io_write io data s =
    (case data of
       None \<Rightarrow>
         (let s1 = s\<lparr>p2s_state := CLOSED\<rparr> in
          case io of
            Completes \<Rightarrow> Return (s1\<lparr>p2s_stream := stream_close (p2s_stream s1)\<rparr>)
          | Raises_StreamClosedError \<Rightarrow> Return (s1\<lparr>p2s_writing := False\<rparr>))
     | Some d \<Rightarrow>
         (let s1 = s\<lparr>p2s_writing := True\<rparr> in
          case io of
            Completes \<Rightarrow> Return (s1\<lparr>p2s_stream := stream_write d (p2s_stream s1)\<rparr>)
          | Raises_StreamClosedError \<Rightarrow> Return (s1\<lparr>p2s_writing := False\<rparr>)))"

subsubsection \<open>Start write\<close>

definition c2p_start_write :: "outcome \<Rightarrow> item \<Rightarrow> session \<Rightarrow> result" where
  "c2p_start_write io data s =
    (if c2p_state s \<noteq> CONNECTED then Return s
     else if \<not> c2p_writing s then
       (if s2c_queued_data s \<noteq> [] then Raise (AssertionError []) s
        else c2p_io_write io data s)
     else Return (s\<lparr>s2c_queued_data := s2c_queued_data s @ [data]\<rparr>))"

definition p2s_start_write :: "outcome \<Rightarrow> item \<Rightarrow> session \<Rightarrow> result" where
  "p2s_start_write io data s =
    (if p2s_state s = CONNECTING
     then Return (s\<lparr>c2s_queued_data := c2s_queued_data s @ [data]\<rparr>)
     else if p2s_state s = CLOSED then Return s
     else if p2s_state s \<noteq> CONNECTED then Raise (AssertionError []) s
     else if \<not> p2s_writing s then p2s_io_write io data s
     else Return (s\<lparr>c2s_queued_data := c2s_queued_data s @ [data]\<rparr>))"

subsubsection \<open>Read completion\<close>

definition on_c2p_done_read :: "outcome \<Rightarrow> bytes \<Rightarrow> session \<Rightarrow> result" where
  "on_c2p_done_read io data s =
    (if \<not> c2p_reading s then Raise (AssertionError []) s
     else if data = [] then Raise (AssertionError []) s
     else p2s_start_write io (Some data) s)"

definition on_p2s_done_read :: "outcome \<Rightarrow> bytes \<Rightarrow> session \<Rightarrow> result" where
  "on_p2s_done_read io data s =
    (if \<not> p2s_reading s then Raise (AssertionError []) s
     else if data = [] then Raise (AssertionError []) s
     else c2p_start_write io (Some data) s)"

subsubsection \<open>Write completion\<close>

definition on_c2p_done_write :: "outcome \<Rightarrow> session \<Rightarrow> result" where
  "on_c2p_done_write io s =
    (if \<not> c2p_writing s then Raise (AssertionError []) s
     else case s2c_queued_data s of
            x # xs \<Rightarrow> c2p_io_write io x (s\<lparr>s2c_queued_data := xs\<rparr>)
          | [] \<Rightarrow> Return (s\<lparr>c2p_writing := False\<rparr>))"

definition on_p2s_done_write :: "outcome \<Rightarrow> session \<Rightarrow> result" where
  "on_p2s_done_write io s =
    (if \<not> p2s_writing s then Raise (AssertionError []) s
     else case c2s_queued_data s of
            x # xs \<Rightarrow> p2s_io_write io x (s\<lparr>c2s_queued_data := xs\<rparr>)
          | [] \<Rightarrow> Return (s\<lparr>p2s_writing := False\<rparr>))"

subsubsection \<open>Removal\<close>

text \<open>
  \<^verbatim>\<open>ProxyServer.remove_session\<close>, on the server held in the session's \<open>proxy\<close> field.
  \<^verbatim>\<open>list.remove\<close> deletes the first occurrence and raises ValueError when there is none.
\<close>

definition ProxyServer_remove_session :: "session \<Rightarrow> result" where
  "ProxyServer_remove_session s =
    (if p2s_state s \<noteq> CLOSED then Raise (AssertionError []) s
     else if c2p_state s \<noteq> CLOSED then Raise (AssertionError []) s
     else if sid s \<notin> set (SessionsList (proxy s)) then Raise ValueError s
     else Return (s\<lparr>proxy := (proxy s)\<lparr>SessionsList := remove1 (sid s) (SessionsList (proxy s))\<rparr>\<rparr>))"

definition remove_session :: "session \<Rightarrow> result" where
  "remove_session s =
    ProxyServer_remove_session (s\<lparr>remove_session_calls := Suc (remove_session_calls s)\<rparr>)"

subsubsection \<open>Close connection\<close>

definition c2p_start_close :: "outcome \<Rightarrow> bool \<Rightarrow> session \<Rightarrow> result" where
  "c2p_start_close io gracefully s =
    (if c2p_state s = CLOSED then Return s
     else if gracefully then c2p_start_write io None s
     else let s1 = s\<lparr>c2p_state := CLOSED, s2c_queued_data := []\<rparr> in
       (case io of
          Raises_StreamClosedError \<Rightarrow> Raise StreamClosedError s1
        | Completes \<Rightarrow>
            (let s2 = s1\<lparr>c2p_stream := stream_close (c2p_stream s1)\<rparr> in
             if p2s_state s2 = CLOSED then remove_session s2 else Return s2)))"

definition p2s_start_close :: "outcome \<Rightarrow> bool \<Rightarrow> session \<Rightarrow> result" where
  "p2s_start_close io gracefully s =
    (if p2s_state s = CLOSED then Return s
     else if gracefully then p2s_start_write io None s
     else let s1 = s\<lparr>p2s_state := CLOSED, c2s_queued_data := []\<rparr> in
       (case io of
          Raises_StreamClosedError \<Rightarrow> Raise StreamClosedError s1
        | Completes \<Rightarrow>
            (let s2 = s1\<lparr>p2s_stream := stream_close (p2s_stream s1)\<rparr> in
             if c2p_state s2 = CLOSED then remove_session s2 else Return s2)))"

definition on_c2p_close :: "outcome \<Rightarrow> session \<Rightarrow> result" where
  "on_c2p_close io s =
    (let s1 = s\<lparr>c2p_state := CLOSED\<rparr> in
     if p2s_state s1 = CLOSED then remove_session s1
     else p2s_start_close io True s1)"

definition on_p2s_close :: "outcome \<Rightarrow> session \<Rightarrow> result" where
  "on_p2s_close io s =
    (let s1 = s\<lparr>p2s_state := CLOSED\<rparr> in
     if c2p_state s1 = CLOSED then remove_session s1
     else c2p_start_close io True s1)"

subsubsection \<open>Connect completion\<close>

text \<open>\<open>io_r\<close> is the outcome of the read request, \<open>io_w\<close> that of the write or close.\<close>

definition on_p2s_done_connect :: "outcome \<Rightarrow> outcome \<Rightarrow> session \<Rightarrow> result" where
  "on_p2s_done_connect io_r io_w s =
    (if p2s_state s \<noteq> CONNECTING then Raise (AssertionError []) s
     else and_then (p2s_start_read io_r (s\<lparr>p2s_state := CONNECTED\<rparr>)) (\<lambda>s1.
       if p2s_writing s1 then Raise (AssertionError []) s1
       else case c2s_queued_data s1 of
              x # xs \<Rightarrow> p2s_start_write io_w x (s1\<lparr>c2s_queued_data := xs\<rparr>)
            | [] \<Rightarrow> Return s1))"

subsubsection \<open>Construction\<close>

text \<open>
  \<^verbatim>\<open>Session.__init__\<close>: \<open>i\<close> is the identity of the new session, \<open>stream\<close> the accepted
  client stream, \<open>io\<close> the outcome of the first read request.
\<close>

definition Session_init :: "outcome \<Rightarrow> nat \<Rightarrow> stream \<Rightarrow> string \<times> nat \<Rightarrow> ProxyServer \<Rightarrow> result" where
  "Session_init io i strm address prx =
    (let c2p = strm\<lparr>nodelay := True, close_callback_set := True\<rparr>;
         p2s0 = (if server_ssl_options prx \<noteq> PyNone
                 then new_stream (SSLIOStream (server_ssl_options prx))
                 else new_stream IOStream);
         p2s = p2s0\<lparr>nodelay := True, close_callback_set := True,
                 connect_target := Some (target_server prx, target_port prx)\<rparr>
     in c2p_start_read io
          \<lparr>sid = i, proxy = prx,
           c2p_reading = False, c2p_writing = False, p2s_writing = False, p2s_reading = False,
           c2p_stream = c2p, c2p_address = address, c2p_state = CONNECTED,
           c2s_queued_data = [], s2c_queued_data = [],
           p2s_stream = p2s, p2s_state = CONNECTING,
           remove_session_calls = 0\<rparr>)"

text \<open>\<^verbatim>\<open>ProxyServer.handle_stream\<close>: build the session, then append it to the list.\<close>

definition handle_stream :: "outcome \<Rightarrow> nat \<Rightarrow> stream \<Rightarrow> string \<times> nat \<Rightarrow> ProxyServer \<Rightarrow> result" where
  "handle_stream io i strm address prx =
    and_then (Session_init io i strm address prx) (\<lambda>s.
      Return (s\<lparr>proxy := (proxy s)\<lparr>SessionsList := SessionsList (proxy s) @ [sid s]\<rparr>\<rparr>))"

subsubsection \<open>The completion notifications that drive a session\<close>

text \<open>
  Each event carries the outcome of the stream call its handler may make. The loop that
  delivers the events is Tornado's: an exception leaving a handler is logged there and
  the next event is delivered to the object as the handler left it.
\<close>

datatype event =
    C2P_done_read bytes outcome
  | P2S_done_read bytes outcome
  | C2P_done_write outcome
  | P2S_done_write outcome
  | P2S_done_connect outcome outcome
  | C2P_close outcome
  | P2S_close outcome

fun fire :: "event \<Rightarrow> session \<Rightarrow> result" where
  "fire (C2P_done_read d io) s = on_c2p_done_read io d s"
| "fire (P2S_done_read d io) s = on_p2s_done_read io d s"
| "fire (C2P_done_write io) s = on_c2p_done_write io s"
| "fire (P2S_done_write io) s = on_p2s_done_write io s"
| "fire (P2S_done_connect io_r io_w) s = on_p2s_done_connect io_r io_w s"
| "fire (C2P_close io) s = on_c2p_close io s"
| "fire (P2S_close io) s = on_p2s_close io s"

definition after :: "event \<Rightarrow> session \<Rightarrow> session" where
  "after e s = state_of (fire e s)"

definition run :: "event list \<Rightarrow> session \<Rightarrow> session" where
  "run es s = fold after es s"

subsection \<open>IOManager\<close>

text \<open>
  A Python object is its identity paired with its value; \<open>py_id\<close> is \<^verbatim>\<open>id(...)\<close>.
  \<open>servers\<close> is the dictionary \<^verbatim>\<open>_servers\<close> (identity to server) in insertion order.
  \<open>ioloop_thread\<close> is the identifier of the thread running the loop, if one was started.
  The IO loop is recorded by \<open>ioloop_stopped\<close> (\<^verbatim>\<open>IOLoop.stop()\<close> was called) and by
  \<open>scheduled\<close>, the callbacks handed to \<^verbatim>\<open>add_callback\<close> (no time) and
  \<^verbatim>\<open>add_timeout\<close> (with the time), oldest first.
\<close>

type_synonym server_obj = "nat \<times> ProxyServer"

definition py_id :: "server_obj \<Rightarrow> nat" where
  "py_id obj = fst obj"

text \<open>The \<^verbatim>\<open>gracefully\<close> argument: a bool or a number of seconds.\<close>

datatype grace = GBool bool | GNum real

datatype callback = Cb_stop grace | Cb_stop_if_no_connections "real option"

record IOManager =
  ioloop_thread :: "nat option"
  servers :: "(nat \<times> ProxyServer) list"
  ioloop_stopped :: bool
  scheduled :: "(real option \<times> callback) list"
  running :: bool
  stopping :: bool
  stopped :: bool

definition IOManager_init :: IOManager where
  "IOManager_init = \<lparr>ioloop_thread = None, servers = [], ioloop_stopped = False,
     scheduled = [], running = False, stopping = False, stopped = True\<rparr>"

text \<open>\<^verbatim>\<open>d[k] = v\<close>: an existing key keeps its place, a new key goes last.\<close>

definition dict_set :: "nat \<Rightarrow> 'v \<Rightarrow> (nat \<times> 'v) list \<Rightarrow> (nat \<times> 'v) list" where
  "dict_set k v d =
    (if k \<in> fst ` set d then map (\<lambda>(k', v'). if k' = k then (k', v) else (k', v')) d
     else d @ [(k, v)])"


text \<open>
  \<^verbatim>\<open>IOManager.add\<close>. The argument is a server by its type, so the \<^verbatim>\<open>isinstance\<close>
  assertion holds; the result is the handle and the updated manager.
\<close>

definition add :: "server_obj \<Rightarrow> IOManager \<Rightarrow> error + (nat \<times> IOManager)" where
  "add server m =
    (if map_of (servers m) (py_id server) \<noteq> None then Inl (AssertionError ''Already Exists'')
     else Inr (py_id server, m\<lparr>servers := dict_set (py_id server) (snd server) (servers m)\<rparr>))"





subsection \<open>Example objects\<close>

text \<open>
  A session as \<^verbatim>\<open>handle_stream\<close> leaves it: accepted from 192.0.2.1, proxied to a
  plain upstream, its first read request accepted by the stream.
\<close>

definition example_session :: session where
  "example_session =
     state_of (handle_stream Completes 7 (new_stream IOStream) (''192.0.2.1'', 40000)
       (ProxyServer_init ''upstream'' 80 PyNone PyNone))"

text \<open>
  The session in the middle of \<^verbatim>\<open>on_p2s_done_connect\<close>, after two chunks were queued
  during the dial: P2S is CONNECTED, its read has been requested, the head of the queue has
  been popped and \<^verbatim>\<open>p2s_start_write\<close> is about to be called with it.
\<close>

definition example_connected :: session where
  "example_connected =
     (run [C2P_done_read ''a'' Completes, C2P_done_read ''b'' Completes] example_session)
       \<lparr>p2s_state := CONNECTED, p2s_reading := True,
        p2s_stream := stream_read_until_close (p2s_stream example_session),
        c2s_queued_data := [Some ''b'']\<rparr>"

definition example_manager :: IOManager where
  "example_manager =
     IOManager_init\<lparr>servers := [(3, ProxyServer_init ''upstream'' 80 PyNone PyNone)]\<rparr>"

subsection \<open>Vocabulary for runs\<close>

text \<open>At most one read was requested of the upstream stream, and none while it is CONNECTING.\<close>

definition read_once :: "session \<Rightarrow> bool" where
  "read_once s = (read_requests (p2s_stream s) \<le> 1
     \<and> (p2s_state s = CONNECTING \<longrightarrow> read_requests (p2s_stream s) = 0))"

text \<open>The events that can reach a session while the upstream is still being dialled.\<close>

fun client_event :: "event \<Rightarrow> bool" where
  "client_event (C2P_done_read d io) = True"
| "client_event (C2P_close io) = True"
| "client_event _ = False"

text \<open>The dial is in flight: nothing has come from the upstream and nothing was sent to it.\<close>

definition dialling :: "session \<Rightarrow> bool" where
  "dialling s = (p2s_state s = CONNECTING \<and> c2p_state s \<noteq> CONNECTING
     \<and> \<not> c2p_writing s \<and> \<not> p2s_writing s \<and> s2c_queued_data s = []
     \<and> sid s \<in> set (SessionsList (proxy s)))"

text \<open>The upstream endpoint is closed and has no write in flight.\<close>

definition upstream_gone :: "session \<Rightarrow> bool" where
  "upstream_gone s = (p2s_state s = CLOSED \<and> \<not> p2s_writing s)"

text \<open>The chunks of a queue, in order (close requests left out).\<close>

fun chunks_of :: "item list \<Rightarrow> bytes list" where
  "chunks_of [] = []"
| "chunks_of (None # q) = chunks_of q"
| "chunks_of (Some d # q) = d # chunks_of q"

text \<open>
  The chunks the client stream delivered in a list of events, in order. An empty chunk
  fails the assertion of \<^verbatim>\<open>on_c2p_done_read\<close> and is not relayed.
\<close>

fun arrived :: "event list \<Rightarrow> bytes list" where
  "arrived [] = []"
| "arrived (C2P_done_read d io # es) = (if d = [] then arrived es else d # arrived es)"
| "arrived (e # es) = arrived es"

text \<open>
  Events of a live relay from client to upstream: no close notification, and the upstream
  stream accepts what is written to it.
\<close>

fun calm :: "event \<Rightarrow> bool" where
  "calm (C2P_done_read d io) = (io = Completes)"
| "calm (P2S_done_write io) = (io = Completes)"
| "calm (P2S_done_connect io_r io_w) = (io_w = Completes)"
| "calm (C2P_close io) = False"
| "calm (P2S_close io) = False"
| "calm (P2S_done_read d io) = True"
| "calm (C2P_done_write io) = True"

fun is_connect :: "event \<Rightarrow> bool" where
  "is_connect (P2S_done_connect io_r io_w) = True"
| "is_connect _ = False"

text \<open>
  The relay invariant: \<open>a\<close> are the chunks that arrived so far, \<open>c\<close> tells whether the
  connect completion has been delivered.
\<close>

definition flowing :: "bytes list \<Rightarrow> bool \<Rightarrow> session \<Rightarrow> bool" where
  "flowing a c s =
    (c2p_reading s
     \<and> written (p2s_stream s) @ chunks_of (c2s_queued_data s) = a
     \<and> None \<notin> set (c2s_queued_data s)
     \<and> p2s_state s = (if c then CONNECTED else CONNECTING)
     \<and> (\<not> c \<longrightarrow> \<not> p2s_writing s \<and> \<not> p2s_reading s \<and> written (p2s_stream s) = [])
     \<and> (c \<and> \<not> p2s_writing s \<longrightarrow> c2s_queued_data s = []))"

fun is_c2p_close :: "event \<Rightarrow> bool" where
  "is_c2p_close (C2P_close io) = True"
| "is_c2p_close _ = False"

fun is_p2s_close :: "event \<Rightarrow> bool" where
  "is_p2s_close (P2S_close io) = True"
| "is_p2s_close _ = False"

text \<open>
  The teardown invariant: \<open>a\<close> (\<open>b\<close>) tells whether the close notification of the client
  (upstream) stream has been delivered, \<open>l\<close> is the session list of the server without
  this session.
\<close>

definition teardown :: "bool \<Rightarrow> bool \<Rightarrow> nat list \<Rightarrow> session \<Rightarrow> bool" where
  "teardown a b l s =
    ((a \<longrightarrow> c2p_state s = CLOSED) \<and> (b \<longrightarrow> p2s_state s = CLOSED)
     \<and> (c2p_state s = CLOSED \<longrightarrow> a \<or> b) \<and> (p2s_state s = CLOSED \<longrightarrow> a \<or> b)
     \<and> (None \<in> set (s2c_queued_data s) \<longrightarrow> b)
     \<and> (None \<in> set (c2s_queued_data s) \<longrightarrow> a)
     \<and> sid s \<notin> set l
     \<and> remove_session_calls s = (if a \<and> b then 1 else 0)
     \<and> SessionsList (proxy s) = (if a \<and> b then l else l @ [sid s]))"



section \<open>Properties\<close>

lemmas io_defs = c2p_io_write_def p2s_io_write_def stream_write_def stream_close_def
  stream_read_until_close_def

lemmas handler_defs = c2p_start_read_def p2s_start_read_def c2p_start_write_def
  p2s_start_write_def on_c2p_done_read_def on_p2s_done_read_def on_c2p_done_write_def
  on_p2s_done_write_def ProxyServer_remove_session_def remove_session_def
  c2p_start_close_def p2s_start_close_def on_c2p_close_def on_p2s_close_def
  on_p2s_done_connect_def

lemmas example_defs = example_session_def handle_stream_def Session_init_def
  ProxyServer_init_def new_stream_def run_def after_def

subsection \<open>Runs\<close>

lemma run_Nil: "run [] s = s"
  by (simp add: run_def)

lemma run_Cons: "run (e # es) s = run es (after e s)"
  by (simp add: run_def)

lemma run_append: "run (es @ fs) s = run fs (run es s)"
  by (simp add: run_def)

lemma run_snoc: "run (es @ [e]) s = after e (run es s)"
  by (simp add: run_def)

subsection \<open>The close request in the low-level write\<close>

text \<open>
  C2 (as the code has it). When \<^verbatim>\<open>_c2p_io_write\<close> or \<^verbatim>\<open>_p2s_io_write\<close> is given
  the close request \<open>None\<close>, it sets the endpoint's state to CLOSED and asks the stream to
  close. The writing flag is cleared only when that close raises StreamClosedError; when
  the close returns, the flag is left as it was. So after \<^verbatim>\<open>on_*_done_write\<close> has
  dequeued a close request and the close has returned, the writing flag is still true.
\<close>

theorem C2_close_request_processed:
  "c2p_io_write Completes None s =
     Return (s\<lparr>c2p_state := CLOSED, c2p_stream := stream_close (c2p_stream s)\<rparr>)
   \<and> c2p_io_write Raises_StreamClosedError None s =
     Return (s\<lparr>c2p_state := CLOSED, c2p_writing := False\<rparr>)
   \<and> p2s_io_write Completes None s =
     Return (s\<lparr>p2s_state := CLOSED, p2s_stream := stream_close (p2s_stream s)\<rparr>)
   \<and> p2s_io_write Raises_StreamClosedError None s =
     Return (s\<lparr>p2s_state := CLOSED, p2s_writing := False\<rparr>)
   \<and> (c2p_writing s \<and> s2c_queued_data s = None # q \<longrightarrow>
        on_c2p_done_write Completes s =
          Return (s\<lparr>s2c_queued_data := q, c2p_state := CLOSED,
                    c2p_stream := stream_close (c2p_stream s)\<rparr>)
        \<and> c2p_writing (state_of (on_c2p_done_write Completes s)))
   \<and> (p2s_writing s \<and> c2s_queued_data s = None # q \<longrightarrow>
        on_p2s_done_write Completes s =
          Return (s\<lparr>c2s_queued_data := q, p2s_state := CLOSED,
                    p2s_stream := stream_close (p2s_stream s)\<rparr>)
        \<and> p2s_writing (state_of (on_p2s_done_write Completes s)))"
  by (simp add: io_defs on_c2p_done_write_def on_p2s_done_write_def)

theorem C2_close_request_processed_witness:
  "p2s_writing (example_session\<lparr>p2s_writing := True, c2s_queued_data := [None]\<rparr>)
   \<and> p2s_writing (state_of (on_p2s_done_write Completes
        (example_session\<lparr>p2s_writing := True, c2s_queued_data := [None]\<rparr>)))
   \<and> c2p_writing (state_of (on_c2p_done_write Completes
        (example_session\<lparr>c2p_writing := True, s2c_queued_data := [None]\<rparr>)))"
  using C2_close_request_processed
          [of "example_session\<lparr>p2s_writing := True, c2s_queued_data := [None]\<rparr>" "[]"]
        C2_close_request_processed
          [of "example_session\<lparr>c2p_writing := True, s2c_queued_data := [None]\<rparr>" "[]"]
  by simp

text \<open>
  The claim as the spec states it fails on a run of the session: the client sends a chunk,
  the upstream connects (the chunk is written), the client closes (the close request is
  queued behind the write in flight), the write completes. The close request has then been
  processed (P2S is CLOSED and one close was requested of the stream), yet the writing flag
  of P2S is set.
\<close>

theorem C2_writing_flag_counterexample:
  "p2s_state (run [C2P_done_read ''a'' Completes, P2S_done_connect Completes Completes,
                   C2P_close Completes, P2S_done_write Completes] example_session) = CLOSED
   \<and> close_requests (p2s_stream
        (run [C2P_done_read ''a'' Completes, P2S_done_connect Completes Completes,
              C2P_close Completes, P2S_done_write Completes] example_session)) = 1
   \<and> p2s_writing
        (run [C2P_done_read ''a'' Completes, P2S_done_connect Completes Completes,
              C2P_close Completes, P2S_done_write Completes] example_session)"
  by (simp add: example_defs handler_defs io_defs Let_def)

subsection \<open>The queue assertion of the start-write operations\<close>

text \<open>
  C3 (as the code has it). When the client endpoint is CONNECTED and not writing,
  \<^verbatim>\<open>c2p_start_write\<close> asserts that its queue is empty and then calls the low-level
  write. \<^verbatim>\<open>p2s_start_write\<close> has no such assertion: when the upstream endpoint is
  CONNECTED and not writing it calls the low-level write whatever the queue holds.
\<close>

theorem C3_queue_assertion:
  "(c2p_state s = CONNECTED \<and> \<not> c2p_writing s \<longrightarrow>
      c2p_start_write io data s =
        (if s2c_queued_data s \<noteq> [] then Raise (AssertionError []) s
         else c2p_io_write io data s))
   \<and> (p2s_state s = CONNECTED \<and> \<not> p2s_writing s \<longrightarrow>
      p2s_start_write io data s = p2s_io_write io data s)"
  by (simp add: c2p_start_write_def p2s_start_write_def)

theorem C3_queue_assertion_witness:
  "c2p_state (example_connected\<lparr>s2c_queued_data := [Some ''y'']\<rparr>) = CONNECTED
   \<and> \<not> c2p_writing (example_connected\<lparr>s2c_queued_data := [Some ''y'']\<rparr>)
   \<and> c2p_start_write Completes (Some ''x'') (example_connected\<lparr>s2c_queued_data := [Some ''y'']\<rparr>)
       = Raise (AssertionError []) (example_connected\<lparr>s2c_queued_data := [Some ''y'']\<rparr>)
   \<and> p2s_state example_connected = CONNECTED \<and> \<not> p2s_writing example_connected
   \<and> p2s_start_write Completes (Some ''a'') example_connected
       = Return (example_connected\<lparr>p2s_writing := True,
           p2s_stream := stream_write ''a'' (p2s_stream example_connected)\<rparr>)"
  using C3_queue_assertion
          [of "example_connected\<lparr>s2c_queued_data := [Some ''y'']\<rparr>" Completes "Some ''x''"]
        C3_queue_assertion [of example_connected Completes "Some ''a''"]
  by (simp add: example_connected_def example_defs handler_defs io_defs)

text \<open>
  The claim as the spec states it fails for the upstream side. After two chunks were queued
  during the dial, \<^verbatim>\<open>on_p2s_done_connect\<close> pops the first and calls
  \<^verbatim>\<open>p2s_start_write\<close> with P2S CONNECTED, not writing and the second chunk still
  queued: the call raises nothing and hands the item to the stream.
\<close>

theorem C3_p2s_assertion_counterexample:
  "on_p2s_done_connect Completes Completes
       (run [C2P_done_read ''a'' Completes, C2P_done_read ''b'' Completes] example_session)
     = p2s_start_write Completes (Some ''a'') example_connected
   \<and> p2s_state example_connected = CONNECTED \<and> \<not> p2s_writing example_connected
   \<and> c2s_queued_data example_connected \<noteq> []
   \<and> error_of (p2s_start_write Completes (Some ''a'') example_connected) = None
   \<and> written (p2s_stream (state_of (p2s_start_write Completes (Some ''a'') example_connected)))
       = [''a'']"
  by (simp add: example_connected_def example_defs handler_defs io_defs)

subsection \<open>A closed stream at the time of a call\<close>

text \<open>
  C6. When the read request of \<^verbatim>\<open>c2p_start_read\<close> or \<^verbatim>\<open>p2s_start_read\<close>, or the
  write of a chunk in \<^verbatim>\<open>_c2p_io_write\<close> or \<^verbatim>\<open>_p2s_io_write\<close>, raises
  StreamClosedError, the method returns normally, the reading (writing) flag is false
  afterwards and nothing else of the session has changed: no state is set to CLOSED and
  no close is requested. No handler of a completion notification lets a
  StreamClosedError out, whatever the streams do.
\<close>

theorem C6_stream_closed_swallowed:
  "(\<not> c2p_reading s \<longrightarrow>
      c2p_start_read Raises_StreamClosedError s = Return (s\<lparr>c2p_reading := False\<rparr>))
   \<and> (\<not> p2s_reading s \<longrightarrow>
      p2s_start_read Raises_StreamClosedError s = Return (s\<lparr>p2s_reading := False\<rparr>))
   \<and> c2p_io_write Raises_StreamClosedError (Some d) s = Return (s\<lparr>c2p_writing := False\<rparr>)
   \<and> p2s_io_write Raises_StreamClosedError (Some d) s = Return (s\<lparr>p2s_writing := False\<rparr>)
   \<and> error_of (fire e s) \<noteq> Some StreamClosedError"
proof (intro conjI)
  show "error_of (fire e s) \<noteq> Some StreamClosedError"
    by (cases e)
       (auto simp: handler_defs io_defs Let_def
             split: outcome.splits option.splits list.splits if_splits)
qed (simp_all add: c2p_start_read_def p2s_start_read_def io_defs)

theorem C6_stream_closed_swallowed_witness:
  "\<not> p2s_reading example_session
   \<and> p2s_start_read Raises_StreamClosedError example_session
       = Return (example_session\<lparr>p2s_reading := False\<rparr>)
   \<and> \<not> c2p_reading (example_session\<lparr>c2p_reading := False\<rparr>)
   \<and> c2p_start_read Raises_StreamClosedError (example_session\<lparr>c2p_reading := False\<rparr>)
       = Return (example_session\<lparr>c2p_reading := False\<rparr>)"
  using C6_stream_closed_swallowed [of example_session]
        C6_stream_closed_swallowed [of "example_session\<lparr>c2p_reading := False\<rparr>"]
  by (simp add: example_defs handler_defs io_defs)

subsection \<open>Outbound TLS\<close>

text \<open>
  C8. \<^verbatim>\<open>ProxyServer.__init__\<close> turns \<^verbatim>\<open>server_ssl_options=True\<close> into the empty
  options dictionary and \<^verbatim>\<open>False\<close> into None, and keeps every other value. A session
  builds its outbound stream as an SSLIOStream with the server's options exactly when those
  options are not None, and as a plain IOStream otherwise.
\<close>

theorem C8_outbound_tls:
  "server_ssl_options (ProxyServer_init h p c (PyBool True)) = PyDict []
   \<and> server_ssl_options (ProxyServer_init h p c (PyBool False)) = PyNone
   \<and> server_ssl_options (ProxyServer_init h p c PyNone) = PyNone
   \<and> server_ssl_options (ProxyServer_init h p c (PyDict kv)) = PyDict kv
   \<and> kind (p2s_stream (state_of (Session_init io i strm addr prx))) =
       (if server_ssl_options prx = PyNone then IOStream
        else SSLIOStream (server_ssl_options prx))"
  by (cases io)
     (simp_all add: ProxyServer_init_def Let_def Session_init_def c2p_start_read_def
        new_stream_def stream_read_until_close_def)

subsection \<open>Registering a server\<close>

text \<open>
  C9. \<^verbatim>\<open>IOManager.add\<close> on a server whose identity is not registered stores the
  server under its identity, after the entries already there, and returns the identity.
  On an identity that is registered it fails the assertion "Already Exists" (before any
  assignment, so the dictionary is as it was); in particular adding the same object a
  second time fails.
\<close>

theorem C9_add_server:
  "(map_of (servers m) (py_id server) = None \<longrightarrow>
      add server m =
        Inr (py_id server, m\<lparr>servers := servers m @ [(py_id server, snd server)]\<rparr>)
      \<and> add server (m\<lparr>servers := servers m @ [(py_id server, snd server)]\<rparr>)
          = Inl (AssertionError ''Already Exists''))
   \<and> (map_of (servers m) (py_id server) \<noteq> None \<longrightarrow>
      add server m = Inl (AssertionError ''Already Exists''))"
  by (auto simp: add_def dict_set_def map_of_eq_None_iff)

theorem C9_add_server_witness:
  "add (3, ProxyServer_init ''upstream'' 80 PyNone PyNone) IOManager_init
     = Inr (3, example_manager)
   \<and> add (3, ProxyServer_init ''upstream'' 80 PyNone PyNone) example_manager
     = Inl (AssertionError ''Already Exists'')"
  using C9_add_server [of IOManager_init "(3, ProxyServer_init ''upstream'' 80 PyNone PyNone)"]
  by (simp add: example_manager_def IOManager_init_def py_id_def)

subsection \<open>One read per endpoint\<close>

lemma c2p_reading_after: "c2p_reading (after e s) = c2p_reading s"
  by (cases e)
     (auto simp: after_def handler_defs io_defs Let_def
           split: outcome.splits option.splits list.splits if_splits)

lemma c2p_read_requests_after:
  "read_requests (c2p_stream (after e s)) = read_requests (c2p_stream s)"
  by (cases e)
     (auto simp: after_def handler_defs io_defs Let_def
           split: outcome.splits option.splits list.splits if_splits)

lemma p2s_reading_after: "p2s_reading s \<Longrightarrow> p2s_reading (after e s)"
  by (cases e)
     (auto simp: after_def handler_defs io_defs Let_def
           split: outcome.splits option.splits list.splits if_splits)

lemma p2s_connecting_after: "p2s_state (after e s) = CONNECTING \<Longrightarrow> p2s_state s = CONNECTING"
  by (cases e)
     (auto simp: after_def handler_defs io_defs Let_def
           split: outcome.splits option.splits list.splits if_splits)

lemma p2s_read_requests_change:
  "read_requests (p2s_stream (after e s)) \<noteq> read_requests (p2s_stream s) \<Longrightarrow>
     (\<exists>a b. e = P2S_done_connect a b) \<and> p2s_state s = CONNECTING
     \<and> p2s_state (after e s) \<noteq> CONNECTING
     \<and> read_requests (p2s_stream (after e s)) = Suc (read_requests (p2s_stream s))"
  by (cases e)
     (auto simp: after_def handler_defs io_defs Let_def
           split: outcome.splits option.splits list.splits if_splits)

lemma read_once_after: "read_once s \<Longrightarrow> read_once (after e s)"
  using p2s_read_requests_change [of e s] p2s_connecting_after [of e s]
  unfolding read_once_def
  by (cases "read_requests (p2s_stream (after e s)) = read_requests (p2s_stream s)") auto

lemma read_once_run: "read_once s \<Longrightarrow> read_once (run es s)"
  by (induction es arbitrary: s) (simp_all add: run_Nil run_Cons read_once_after)

lemma c2p_read_requests_run:
  "read_requests (c2p_stream (run es s)) = read_requests (c2p_stream s)"
  by (induction es arbitrary: s) (simp_all add: run_Nil run_Cons c2p_read_requests_after)

lemma Session_init_reads:
  "read_once (state_of (Session_init io i strm addr prx))
   \<and> read_requests (c2p_stream (state_of (Session_init io i strm addr prx)))
       = read_requests strm + (if io = Completes then 1 else 0)"
  by (cases io)
     (simp_all add: read_once_def Session_init_def c2p_start_read_def new_stream_def
        stream_read_until_close_def)

text \<open>
  C10. No completion handler changes the reading flag of the client endpoint or requests a
  read of the client stream: the request made by the constructor is the only one. A read of
  the upstream stream is requested only by \<^verbatim>\<open>on_p2s_done_connect\<close>, only while P2S
  is CONNECTING, and P2S is never CONNECTING again afterwards. A reading flag that is set
  stays set under every event, the close notifications included, and with the flag set a
  call of the start-read method fails its assertion. Over every run of events that follows
  the construction, whatever the streams do, each stream is asked to read at most once.
\<close>

theorem C10_read_started_once:
  "c2p_reading (after e s) = c2p_reading s
   \<and> (p2s_reading s \<longrightarrow> p2s_reading (after e s))
   \<and> (c2p_reading s \<longrightarrow> c2p_start_read io s = Raise (AssertionError []) s)
   \<and> (p2s_reading s \<longrightarrow> p2s_start_read io s = Raise (AssertionError []) s)
   \<and> read_requests (c2p_stream (after e s)) = read_requests (c2p_stream s)
   \<and> (read_requests (p2s_stream (after e s)) \<noteq> read_requests (p2s_stream s) \<longrightarrow>
        (\<exists>a b. e = P2S_done_connect a b) \<and> p2s_state s = CONNECTING
        \<and> p2s_state (after e s) \<noteq> CONNECTING)
   \<and> (p2s_state (after e s) = CONNECTING \<longrightarrow> p2s_state s = CONNECTING)
   \<and> read_requests (c2p_stream (run es (state_of (Session_init io0 i strm addr prx))))
        \<le> read_requests strm + 1
   \<and> read_requests (p2s_stream (run es (state_of (Session_init io0 i strm addr prx)))) \<le> 1"
proof -
  let ?s0 = "state_of (Session_init io0 i strm addr prx)"
  have "read_once (run es ?s0)"
    by (rule read_once_run) (simp add: Session_init_reads)
  then have p2s: "read_requests (p2s_stream (run es ?s0)) \<le> 1"
    by (simp add: read_once_def)
  have c2p: "read_requests (c2p_stream (run es ?s0)) \<le> read_requests strm + 1"
    by (simp add: c2p_read_requests_run Session_init_reads)
  show ?thesis
    using p2s c2p p2s_read_requests_change [of e s] p2s_connecting_after [of e s]
      p2s_reading_after [of s e]
    by (simp add: c2p_reading_after c2p_read_requests_after c2p_start_read_def
          p2s_start_read_def)
qed

theorem C10_read_started_once_witness:
  "c2p_reading example_session
   \<and> c2p_start_read Completes example_session = Raise (AssertionError []) example_session
   \<and> c2p_reading (after (C2P_close Completes) example_session)
   \<and> p2s_reading (after (P2S_done_connect Completes Completes) example_session)
   \<and> p2s_reading (after (P2S_close Completes)
        (after (P2S_done_connect Completes Completes) example_session))
   \<and> read_requests (p2s_stream (after (P2S_done_connect Completes Completes) example_session))
        \<noteq> read_requests (p2s_stream example_session)
   \<and> p2s_state example_session = CONNECTING
   \<and> read_requests (p2s_stream
        (run [P2S_done_connect Completes Completes, P2S_done_connect Completes Completes]
          (state_of (Session_init Completes 7 (new_stream IOStream) (''192.0.2.1'', 40000)
             (ProxyServer_init ''upstream'' 80 PyNone PyNone))))) \<le> 1"
  using C10_read_started_once [where s = example_session and e = "C2P_close Completes"
          and io = Completes
          and es = "[P2S_done_connect Completes Completes, P2S_done_connect Completes Completes]"
          and ?io0.0 = Completes and i = 7 and strm = "new_stream IOStream"
          and addr = "(''192.0.2.1'', 40000)"
          and prx = "ProxyServer_init ''upstream'' 80 PyNone PyNone"]
        C10_read_started_once [where s = example_session
          and e = "P2S_done_connect Completes Completes"]
        C10_read_started_once
          [where s = "after (P2S_done_connect Completes Completes) example_session"
          and e = "P2S_close Completes"]
  by (simp add: example_defs handler_defs io_defs Let_def)

subsection \<open>Failure of the upstream dial\<close>

lemma dialling_after:
  "dialling s \<Longrightarrow> client_event e \<Longrightarrow>
     dialling (after e s) \<and> p2s_stream (after e s) = p2s_stream s
     \<and> c2p_stream (after e s) = c2p_stream s"
  by (cases e)
     (auto simp: dialling_def after_def on_c2p_done_read_def p2s_start_write_def
        on_c2p_close_def p2s_start_close_def)

lemma dialling_run:
  "dialling s \<Longrightarrow> \<forall>e\<in>set es. client_event e \<Longrightarrow>
     dialling (run es s) \<and> p2s_stream (run es s) = p2s_stream s
     \<and> c2p_stream (run es s) = c2p_stream s"
proof (induction es arbitrary: s)
  case Nil
  then show ?case by (simp add: run_Nil)
next
  case (Cons e es)
  from Cons.prems have d: "dialling (after e s)" and p: "p2s_stream (after e s) = p2s_stream s"
    and c: "c2p_stream (after e s) = c2p_stream s"
    using dialling_after [of s e] by simp_all
  from Cons.IH [OF d] Cons.prems(2) p c show ?case by (simp add: run_Cons)
qed

lemma dialling_init: "dialling (state_of (handle_stream io i strm addr prx))"
  by (cases io) (simp_all add: dialling_def handle_stream_def Session_init_def c2p_start_read_def)

lemma upstream_gone_after:
  "upstream_gone s \<Longrightarrow> upstream_gone (after e s) \<and> p2s_stream (after e s) = p2s_stream s"
  by (cases e)
     (auto simp: upstream_gone_def after_def handler_defs io_defs Let_def
           split: outcome.splits option.splits list.splits if_splits)

lemma upstream_gone_run:
  "upstream_gone s \<Longrightarrow> upstream_gone (run es s) \<and> p2s_stream (run es s) = p2s_stream s"
proof (induction es arbitrary: s)
  case Nil
  then show ?case by (simp add: run_Nil)
next
  case (Cons e es)
  from upstream_gone_after [OF Cons.prems, of e] Cons.IH [of "after e s"]
  show ?case by (simp add: run_Cons)
qed

lemma dial_failure:
  "dialling s \<Longrightarrow>
     error_of (on_p2s_close io s) = None
     \<and> p2s_state (after (P2S_close io) s) = CLOSED
     \<and> c2p_state (after (P2S_close io) s) = CLOSED
     \<and> upstream_gone (after (P2S_close io) s)
     \<and> c2s_queued_data (after (P2S_close io) s) = c2s_queued_data s
     \<and> p2s_stream (after (P2S_close io) s) = p2s_stream s
     \<and> (c2p_state s = CONNECTED \<longrightarrow>
          on_p2s_close io s = c2p_start_close io True (s\<lparr>p2s_state := CLOSED\<rparr>)
          \<and> on_p2s_close io s = c2p_io_write io None (s\<lparr>p2s_state := CLOSED\<rparr>)
          \<and> c2p_stream (after (P2S_close Completes) s) = stream_close (c2p_stream s))
     \<and> (c2p_state s = CLOSED \<longrightarrow>
          on_p2s_close io s = remove_session (s\<lparr>p2s_state := CLOSED\<rparr>))"
  by (cases io; cases "c2p_state s") (simp_all add: dialling_def upstream_gone_def after_def on_p2s_close_def c2p_start_close_def
      c2p_start_write_def c2p_io_write_def remove_session_def ProxyServer_remove_session_def)

text \<open>
  C5. Take a session as \<^verbatim>\<open>handle_stream\<close> creates it and let any number of client
  events (chunks read, the client closing) arrive while the upstream is being dialled. P2S
  is then still CONNECTING. When the close notification of the upstream stream fires now
  (the dial failed), \<^verbatim>\<open>on_p2s_close\<close> raises nothing and leaves both endpoints CLOSED.
  If the client endpoint was still CONNECTED, it is closed by
  \<^verbatim>\<open>c2p_start_close(gracefully=True)\<close>, which hands the close request \<open>None\<close> to the
  low-level write at once: one close is requested of the client stream and nothing is
  written to it. If the client had closed already, the session is removed instead. In both
  cases nothing is ever written to the upstream stream, and no close is requested of it,
  under any events that follow: the chunks queued for the upstream are never sent.
\<close>

theorem C5_dial_failure:
  assumes "\<forall>e\<in>set es. client_event e"
  shows "p2s_state (run es (state_of (handle_stream io0 i strm addr prx))) = CONNECTING
   \<and> error_of (on_p2s_close io (run es (state_of (handle_stream io0 i strm addr prx)))) = None
   \<and> p2s_state (after (P2S_close io) (run es (state_of (handle_stream io0 i strm addr prx)))) = CLOSED
   \<and> c2p_state (after (P2S_close io) (run es (state_of (handle_stream io0 i strm addr prx)))) = CLOSED
   \<and> (c2p_state (run es (state_of (handle_stream io0 i strm addr prx))) = CONNECTED \<longrightarrow>
        on_p2s_close io (run es (state_of (handle_stream io0 i strm addr prx)))
          = c2p_start_close io True
              ((run es (state_of (handle_stream io0 i strm addr prx)))\<lparr>p2s_state := CLOSED\<rparr>)
        \<and> on_p2s_close io (run es (state_of (handle_stream io0 i strm addr prx)))
          = c2p_io_write io None
              ((run es (state_of (handle_stream io0 i strm addr prx)))\<lparr>p2s_state := CLOSED\<rparr>)
        \<and> close_requests (c2p_stream (after (P2S_close Completes)
              (run es (state_of (handle_stream io0 i strm addr prx))))) = Suc (close_requests strm)
        \<and> written (c2p_stream (after (P2S_close Completes)
              (run es (state_of (handle_stream io0 i strm addr prx))))) = written strm)
   \<and> (c2p_state (run es (state_of (handle_stream io0 i strm addr prx))) = CLOSED \<longrightarrow>
        on_p2s_close io (run es (state_of (handle_stream io0 i strm addr prx)))
          = remove_session
              ((run es (state_of (handle_stream io0 i strm addr prx)))\<lparr>p2s_state := CLOSED\<rparr>))
   \<and> (\<forall>fs. written (p2s_stream (run fs (after (P2S_close io)
              (run es (state_of (handle_stream io0 i strm addr prx)))))) = []
          \<and> close_requests (p2s_stream (run fs (after (P2S_close io)
              (run es (state_of (handle_stream io0 i strm addr prx)))))) = 0)"
proof -
  let ?init = "state_of (handle_stream io0 i strm addr prx)"
  let ?s = "run es ?init"
  have d: "dialling ?s" and p: "p2s_stream ?s = p2s_stream ?init" and c: "c2p_stream ?s = c2p_stream ?init"
    using dialling_run [OF dialling_init assms, of io0 i strm addr prx] by simp_all
  note f = dial_failure [OF d, of io]
  have later: "p2s_stream (run fs (after (P2S_close io) ?s)) = p2s_stream ?init" for fs
    using upstream_gone_run [of "after (P2S_close io) ?s" fs] f p by simp
  have w0: "written (p2s_stream ?init) = [] \<and> close_requests (p2s_stream ?init) = 0"
    by (cases io0) (simp_all add: handle_stream_def Session_init_def c2p_start_read_def new_stream_def)
  have c0: "close_requests (c2p_stream ?init) = close_requests strm \<and> written (c2p_stream ?init) = written strm"
    by (cases io0) (simp_all add: handle_stream_def Session_init_def c2p_start_read_def stream_read_until_close_def)
  from d have "p2s_state ?s = CONNECTING" by (simp add: dialling_def)
  moreover have "\<forall>fs. written (p2s_stream (run fs (after (P2S_close io) ?s))) = []
      \<and> close_requests (p2s_stream (run fs (after (P2S_close io) ?s))) = 0"
    using later w0 by simp
  moreover have "c2p_state ?s = CONNECTED \<longrightarrow>
      close_requests (c2p_stream (after (P2S_close Completes) ?s)) = Suc (close_requests strm)
      \<and> written (c2p_stream (after (P2S_close Completes) ?s)) = written strm"
    using dial_failure [OF d, of Completes] c c0 by (simp add: stream_close_def)
  ultimately show ?thesis using f by auto
qed

theorem C5_dial_failure_witness:
  "c2s_queued_data (run [C2P_done_read ''hello'' Completes] example_session) = [Some ''hello'']
   \<and> c2p_state (run [C2P_done_read ''hello'' Completes] example_session) = CONNECTED
   \<and> p2s_state (run [C2P_done_read ''hello'' Completes] example_session) = CONNECTING
   \<and> error_of (on_p2s_close Completes
        (run [C2P_done_read ''hello'' Completes] example_session)) = None
   \<and> c2p_state (after (P2S_close Completes)
        (run [C2P_done_read ''hello'' Completes] example_session)) = CLOSED
   \<and> close_requests (c2p_stream (after (P2S_close Completes)
        (run [C2P_done_read ''hello'' Completes] example_session))) = 1
   \<and> written (p2s_stream (run [P2S_done_write Completes, C2P_done_read ''more'' Completes]
        (after (P2S_close Completes)
          (run [C2P_done_read ''hello'' Completes] example_session)))) = []"
  using C5_dial_failure [of "[C2P_done_read ''hello'' Completes]" Completes 7
          "new_stream IOStream" "(''192.0.2.1'', 40000)"
          "ProxyServer_init ''upstream'' 80 PyNone PyNone" Completes]
  by (simp add: example_defs handler_defs io_defs Let_def)

subsection \<open>Order across the connect window\<close>

lemma chunks_of_append: "chunks_of (q @ r) = chunks_of q @ chunks_of r"
  by (induction q rule: chunks_of.induct) simp_all

lemma chunks_of_Some: "None \<notin> set q \<Longrightarrow> map Some (chunks_of q) = q"
  by (induction q rule: chunks_of.induct) simp_all

lemma arrived_append: "arrived (es @ fs) = arrived es @ arrived fs"
  by (induction es rule: arrived.induct) simp_all

lemma flowing_after:
  "flowing a c s \<Longrightarrow> calm e \<Longrightarrow> flowing (a @ arrived [e]) (c \<or> is_connect e) (after e s)"
  apply (cases e)
   apply (auto simp: flowing_def after_def handler_defs io_defs Let_def chunks_of_append
           split: outcome.splits option.splits list.splits if_splits)
  done


lemma flowing_run:
  "flowing a c s \<Longrightarrow> \<forall>e\<in>set es. calm e \<Longrightarrow>
     flowing (a @ arrived es) (c \<or> (\<exists>e\<in>set es. is_connect e)) (run es s)"
proof (induction es arbitrary: a c s)
  case Nil
  then show ?case by (simp add: run_Nil)
next
  case (Cons e es)
  from Cons.prems have "flowing (a @ arrived [e]) (c \<or> is_connect e) (after e s)"
    by (simp add: flowing_after)
  from Cons.IH [OF this] Cons.prems(2)
  have "flowing ((a @ arrived [e]) @ arrived es)
          ((c \<or> is_connect e) \<or> (\<exists>e\<in>set es. is_connect e)) (run es (after e s))"
    by simp
  moreover have "(a @ arrived [e]) @ arrived es = a @ arrived (e # es)"
    using arrived_append [of "[e]" es] by simp
  ultimately show ?case by (simp add: run_Cons disj_assoc)
qed

lemma flowing_init: "flowing [] False (state_of (handle_stream Completes i strm addr prx))"
  by (simp add: flowing_def handle_stream_def Session_init_def c2p_start_read_def new_stream_def
        stream_read_until_close_def)

lemma drain_step:
  "flowing a True s \<Longrightarrow>
     flowing a True (after (P2S_done_write Completes) s)
     \<and> length (c2s_queued_data (after (P2S_done_write Completes) s))
         = length (c2s_queued_data s) - 1"
  using flowing_after [of a True s "P2S_done_write Completes"]
  by (auto simp: flowing_def after_def on_p2s_done_write_def io_defs split: list.splits option.splits)

lemma drain:
  "flowing a True s \<Longrightarrow> length (c2s_queued_data s) \<le> n \<Longrightarrow>
     written (p2s_stream (run (replicate n (P2S_done_write Completes)) s)) = a"
proof (induction n arbitrary: s)
  case 0
  then show ?case by (simp add: run_Nil flowing_def)
next
  case (Suc n)
  from drain_step [OF Suc.prems(1)] Suc.prems(2)
  have "flowing a True (after (P2S_done_write Completes) s)"
    and "length (c2s_queued_data (after (P2S_done_write Completes) s)) \<le> n"
    by simp_all
  from Suc.IH [OF this] show ?case by (simp add: run_Cons)
qed

text \<open>
  C1. Take a session as \<^verbatim>\<open>handle_stream\<close> creates it (its first read accepted) and
  any list of events without a close notification in which the upstream stream accepts
  every write. At every point of the run, the chunks written to the upstream stream
  followed by the chunks waiting in the P2S queue are exactly the chunks that arrived from
  the client, in their order of arrival; the queue holds no close request. While P2S is
  CONNECTING (no connect completion yet) nothing has been written, the queue is the list
  of arrived chunks, and \<^verbatim>\<open>p2s_start_write\<close> appends its item to the queue. Once the
  connect completion has fired, the write completions drain the queue: after as many of
  them as the queue is long (or more), the upstream stream has been given every chunk that
  arrived, in order, those queued during the dial before those that came later.
\<close>

theorem C1_connect_window_order:
  assumes "\<forall>e\<in>set es. calm e"
  shows "written (p2s_stream (run es (state_of (handle_stream Completes i strm addr prx))))
           @ chunks_of (c2s_queued_data (run es (state_of (handle_stream Completes i strm addr prx))))
         = arrived es
   \<and> None \<notin> set (c2s_queued_data (run es (state_of (handle_stream Completes i strm addr prx))))
   \<and> p2s_state (run es (state_of (handle_stream Completes i strm addr prx)))
       = (if \<exists>e\<in>set es. is_connect e then CONNECTED else CONNECTING)
   \<and> (p2s_state (run es (state_of (handle_stream Completes i strm addr prx))) = CONNECTING \<longrightarrow>
        c2s_queued_data (run es (state_of (handle_stream Completes i strm addr prx)))
          = map Some (arrived es)
        \<and> written (p2s_stream (run es (state_of (handle_stream Completes i strm addr prx)))) = []
        \<and> p2s_start_write io item (run es (state_of (handle_stream Completes i strm addr prx)))
          = Return ((run es (state_of (handle_stream Completes i strm addr prx)))
              \<lparr>c2s_queued_data :=
                 c2s_queued_data (run es (state_of (handle_stream Completes i strm addr prx)))
                   @ [item]\<rparr>))
   \<and> (p2s_state (run es (state_of (handle_stream Completes i strm addr prx))) = CONNECTED \<longrightarrow>
        (\<forall>n. length (c2s_queued_data
                 (run es (state_of (handle_stream Completes i strm addr prx)))) \<le> n \<longrightarrow>
           written (p2s_stream (run (replicate n (P2S_done_write Completes))
             (run es (state_of (handle_stream Completes i strm addr prx))))) = arrived es))"
proof -
  let ?s = "run es (state_of (handle_stream Completes i strm addr prx))"
  let ?c = "\<exists>e\<in>set es. is_connect e"
  have fl: "flowing (arrived es) ?c ?s"
    using flowing_run [OF flowing_init assms, of i strm addr prx] by simp
  then have a: "written (p2s_stream ?s) @ chunks_of (c2s_queued_data ?s) = arrived es"
    and b: "None \<notin> set (c2s_queued_data ?s)"
    and c: "p2s_state ?s = (if ?c then CONNECTED else CONNECTING)"
    by (simp_all add: flowing_def)
  have d: "c2s_queued_data ?s = map Some (arrived es) \<and> written (p2s_stream ?s) = []"
    if "p2s_state ?s = CONNECTING"
  proof -
    from that c have "\<not> ?c" by (simp split: if_splits)
    with fl have w: "written (p2s_stream ?s) = []" by (simp add: flowing_def)
    with a have "chunks_of (c2s_queued_data ?s) = arrived es" by simp
    with chunks_of_Some [OF b] w show ?thesis by simp
  qed
  have e: "p2s_start_write io item ?s = Return (?s\<lparr>c2s_queued_data := c2s_queued_data ?s @ [item]\<rparr>)"
    if "p2s_state ?s = CONNECTING"
    using that by (simp add: p2s_start_write_def)
  have f: "written (p2s_stream (run (replicate n (P2S_done_write Completes)) ?s)) = arrived es"
    if "p2s_state ?s = CONNECTED" and "length (c2s_queued_data ?s) \<le> n" for n
  proof -
    from that(1) c have "?c" by (simp split: if_splits)
    with fl have "flowing (arrived es) True ?s" by simp
    from drain [OF this that(2)] show ?thesis .
  qed
  from a b c d e f show ?thesis by blast
qed

theorem C1_connect_window_order_witness:
  "c2s_queued_data (run [C2P_done_read ''ABCDEFG'' Completes, C2P_done_read ''XY'' Completes]
       example_session) = [Some ''ABCDEFG'', Some ''XY'']
   \<and> written (p2s_stream
        (run [C2P_done_read ''ABCDEFG'' Completes, C2P_done_read ''XY'' Completes,
              P2S_done_connect Completes Completes, C2P_done_read ''HIJ'' Completes]
          example_session)) = [''ABCDEFG'']
   \<and> c2s_queued_data
        (run [C2P_done_read ''ABCDEFG'' Completes, C2P_done_read ''XY'' Completes,
              P2S_done_connect Completes Completes, C2P_done_read ''HIJ'' Completes]
          example_session) = [Some ''XY'', Some ''HIJ'']
   \<and> written (p2s_stream
        (run [P2S_done_write Completes, P2S_done_write Completes]
          (run [C2P_done_read ''ABCDEFG'' Completes, C2P_done_read ''XY'' Completes,
                P2S_done_connect Completes Completes, C2P_done_read ''HIJ'' Completes]
            example_session))) = [''ABCDEFG'', ''XY'', ''HIJ'']"
  using C1_connect_window_order
          [of "[C2P_done_read ''ABCDEFG'' Completes, C2P_done_read ''XY'' Completes]"
              7 "new_stream IOStream" "(''192.0.2.1'', 40000)"
              "ProxyServer_init ''upstream'' 80 PyNone PyNone"]
        C1_connect_window_order
          [of "[C2P_done_read ''ABCDEFG'' Completes, C2P_done_read ''XY'' Completes,
                P2S_done_connect Completes Completes, C2P_done_read ''HIJ'' Completes]"
              7 "new_stream IOStream" "(''192.0.2.1'', 40000)"
              "ProxyServer_init ''upstream'' 80 PyNone PyNone"]
  by (simp add: example_defs handler_defs io_defs Let_def)

subsection \<open>Removal of the session\<close>

lemma remove1_last: "x \<notin> set l \<Longrightarrow> remove1 x (l @ [x]) = l"
  by (induction l) auto

lemma teardown_other:
  "teardown a b l s \<Longrightarrow> \<not> is_c2p_close e \<Longrightarrow> \<not> is_p2s_close e \<Longrightarrow> teardown a b l (after e s)"
  apply (cases e)
  apply (auto simp: teardown_def after_def handler_defs io_defs Let_def
           split: outcome.splits option.splits list.splits if_splits)
  done

lemma teardown_c2p_close:
  "teardown False b l s \<Longrightarrow> teardown True b l (after (C2P_close io) s)"
  by (auto simp: teardown_def after_def handler_defs io_defs Let_def remove1_last
           split: outcome.splits option.splits list.splits if_splits)

lemma teardown_p2s_close:
  "teardown a False l s \<Longrightarrow> teardown a True l (after (P2S_close io) s)"
  by (auto simp: teardown_def after_def handler_defs io_defs Let_def remove1_last
           split: outcome.splits option.splits list.splits if_splits)


lemma teardown_after:
  assumes "teardown a b l s"
    and "is_c2p_close e \<longrightarrow> \<not> a" and "is_p2s_close e \<longrightarrow> \<not> b"
  shows "teardown (a \<or> is_c2p_close e) (b \<or> is_p2s_close e) l (after e s)"
proof (cases e)
  case (C2P_close io)
  with assms show ?thesis using teardown_c2p_close [of b l s io] by simp
next
  case (P2S_close io)
  with assms show ?thesis using teardown_p2s_close [of a l s io] by simp
qed (use assms teardown_other [of a b l s e] in simp_all)

lemma filter_snoc_le1:
  "length (filter P (es @ [e])) \<le> 1 \<Longrightarrow>
     length (filter P es) \<le> 1 \<and> (P e \<longrightarrow> \<not> (\<exists>x\<in>set es. P x))"
  by (cases "P e") (auto simp: filter_empty_conv)

lemma teardown_run:
  "teardown False False l s \<Longrightarrow> length (filter is_c2p_close es) \<le> 1 \<Longrightarrow>
   length (filter is_p2s_close es) \<le> 1 \<Longrightarrow>
     teardown (\<exists>e\<in>set es. is_c2p_close e) (\<exists>e\<in>set es. is_p2s_close e) l (run es s)"
proof (induction es rule: rev_induct)
  case Nil
  then show ?case by (simp add: run_Nil)
next
  case (snoc e es)
  from filter_snoc_le1 [OF snoc.prems(2)] filter_snoc_le1 [OF snoc.prems(3)]
  have c: "length (filter is_c2p_close es) \<le> 1" "is_c2p_close e \<longrightarrow> \<not> (\<exists>x\<in>set es. is_c2p_close x)"
    and p: "length (filter is_p2s_close es) \<le> 1" "is_p2s_close e \<longrightarrow> \<not> (\<exists>x\<in>set es. is_p2s_close x)"
    by simp_all
  from snoc.IH [OF snoc.prems(1) c(1) p(1)]
  have "teardown (\<exists>x\<in>set es. is_c2p_close x) (\<exists>x\<in>set es. is_p2s_close x) l (run es s)" .
  from teardown_after [OF this c(2) p(2)]
  show ?case by (simp add: run_snoc bex_Un disj_commute)
qed

lemma teardown_init:
  "i \<notin> set (SessionsList prx) \<Longrightarrow>
     teardown False False (SessionsList prx) (state_of (handle_stream io i strm addr prx))"
  by (cases io)
     (simp_all add: teardown_def handle_stream_def Session_init_def c2p_start_read_def)

lemma filter_pos: "x \<in> set es \<Longrightarrow> P x \<Longrightarrow> 0 < length (filter P es)"
  by (simp add: filter_empty_conv) blast

lemma filter_prefix_le1:
  assumes "length (filter P (es1 @ e # es2)) \<le> 1"
  shows "length (filter P es1) \<le> 1 \<and> length (filter P (es1 @ [e])) \<le> 1
     \<and> (P e \<longrightarrow> \<not> (\<exists>x\<in>set es1. P x) \<and> \<not> (\<exists>x\<in>set es2. P x))
     \<and> ((\<exists>x\<in>set es1. P x) \<longrightarrow> \<not> (\<exists>x\<in>set es2. P x))"
proof -
  define n1 where "n1 = length (filter P es1)"
  define n2 where "n2 = length (filter P es2)"
  from assms have sum: "n1 + (if P e then 1 else 0) + n2 \<le> 1"
    unfolding n1_def n2_def by (cases "P e") simp_all
  have one: "(\<exists>x\<in>set es1. P x) \<longrightarrow> 0 < n1"
    unfolding n1_def using filter_pos [of _ es1 P] by blast
  have two: "(\<exists>x\<in>set es2. P x) \<longrightarrow> 0 < n2"
    unfolding n2_def using filter_pos [of _ es2 P] by blast
  have "n1 \<le> 1"
    using sum by simp
  moreover have "length (filter P (es1 @ [e])) = n1 + (if P e then 1 else 0)"
    unfolding n1_def by simp
  moreover have "P e \<longrightarrow> \<not> (\<exists>x\<in>set es1. P x) \<and> \<not> (\<exists>x\<in>set es2. P x)"
    using sum one two by (cases "P e") auto
  moreover have "(\<exists>x\<in>set es1. P x) \<longrightarrow> \<not> (\<exists>x\<in>set es2. P x)"
    using sum one two by (cases "P e") auto
  ultimately show ?thesis using sum unfolding n1_def by (cases "P e") simp_all
qed


lemma sid_after: "sid (after e s) = sid s"
  by (cases e)
     (auto simp: after_def handler_defs io_defs Let_def
           split: outcome.splits option.splits list.splits if_splits)

lemma sid_run: "sid (run es s) = sid s"
  by (induction es arbitrary: s) (simp_all add: run_Nil run_Cons sid_after)

lemma sid_init: "sid (state_of (handle_stream io i strm addr prx)) = i"
  by (cases io) (simp_all add: handle_stream_def Session_init_def c2p_start_read_def)

lemma close_kinds: "\<not> (is_c2p_close e \<and> is_p2s_close e)"
  by (cases e) simp_all

lemma last_close_removes:
  assumes fresh: "i \<notin> set (SessionsList prx)"
    and c: "length (filter is_c2p_close (es1 @ e # es2)) \<le> 1"
    and p: "length (filter is_p2s_close (es1 @ e # es2)) \<le> 1"
    and ch: "remove_session_calls (run (es1 @ [e]) (state_of (handle_stream io i strm addr prx)))
             \<noteq> remove_session_calls (run es1 (state_of (handle_stream io i strm addr prx)))"
  shows "((is_c2p_close e \<and> p2s_state (run es1 (state_of (handle_stream io i strm addr prx))) = CLOSED)
          \<or> (is_p2s_close e \<and> c2p_state (run es1 (state_of (handle_stream io i strm addr prx))) = CLOSED))
         \<and> \<not> (\<exists>x\<in>set es2. is_c2p_close x \<or> is_p2s_close x)"
proof -
  let ?init = "state_of (handle_stream io i strm addr prx)"
  let ?A = "\<exists>x\<in>set es1. is_c2p_close x"
  let ?B = "\<exists>x\<in>set es1. is_p2s_close x"
  note fc = filter_prefix_le1 [OF c]
  note fp = filter_prefix_le1 [OF p]
  have t1: "teardown ?A ?B (SessionsList prx) (run es1 ?init)"
    using teardown_run [OF teardown_init [OF fresh], of es1 io strm addr] fc fp by blast
  have t2: "teardown (\<exists>x\<in>set (es1 @ [e]). is_c2p_close x) (\<exists>x\<in>set (es1 @ [e]). is_p2s_close x)
              (SessionsList prx) (run (es1 @ [e]) ?init)"
    using teardown_run [OF teardown_init [OF fresh], of "es1 @ [e]" io strm addr] fc fp by blast
  from t1 have n1: "remove_session_calls (run es1 ?init) = (if ?A \<and> ?B then 1 else 0)"
    by (simp add: teardown_def)
  from t2 have n2: "remove_session_calls (run (es1 @ [e]) ?init)
      = (if (?A \<or> is_c2p_close e) \<and> (?B \<or> is_p2s_close e) then 1 else 0)"
    by (simp add: teardown_def bex_Un disj_commute)
  from ch n1 n2 have now: "(?A \<or> is_c2p_close e) \<and> (?B \<or> is_p2s_close e)" and before: "\<not> (?A \<and> ?B)"
    by (simp_all split: if_splits)
  show ?thesis
  proof (cases "is_c2p_close e")
    case True
    with close_kinds [of e] now have b: ?B by simp
    with t1 have "p2s_state (run es1 ?init) = CLOSED" by (simp add: teardown_def)
    moreover from True fc have "\<not> (\<exists>x\<in>set es2. is_c2p_close x)" by simp
    moreover from b fp have "\<not> (\<exists>x\<in>set es2. is_p2s_close x)" by simp
    ultimately show ?thesis using True by blast
  next
    case False
    with now have a: ?A by simp
    with before have "\<not> ?B" by simp
    with now have pe: "is_p2s_close e" by simp
    from a t1 have "c2p_state (run es1 ?init) = CLOSED" by (simp add: teardown_def)
    moreover from pe fp have "\<not> (\<exists>x\<in>set es2. is_p2s_close x)" by simp
    moreover from a fc have "\<not> (\<exists>x\<in>set es2. is_c2p_close x)" by simp
    ultimately show ?thesis using pe by blast
  qed
qed

text \<open>
  C4. Take a session as \<^verbatim>\<open>handle_stream\<close> creates it, with an identity that is not
  yet in the server's list, and any run of events in which each stream fires its close
  notification at most once (whatever else the streams do). Then
  \<^verbatim>\<open>remove_session\<close> has been called once if both close notifications have been
  delivered and not at all otherwise, and the server's list is the original list in the
  first case and the original list followed by this session in the second: the session is
  removed exactly once. Once both notifications have been delivered both endpoints are
  CLOSED. The event at which the call happens is a close notification that finds the other
  endpoint CLOSED, and no close notification follows it: it is the last of the two.
  \<^verbatim>\<open>ProxyServer.remove_session\<close> fails its assertion unless both endpoints are CLOSED.
\<close>

theorem C4_removed_once:
  assumes fresh: "i \<notin> set (SessionsList prx)"
    and c: "length (filter is_c2p_close es) \<le> 1"
    and p: "length (filter is_p2s_close es) \<le> 1"
  shows "remove_session_calls (run es (state_of (handle_stream io i strm addr prx)))
       = (if (\<exists>x\<in>set es. is_c2p_close x) \<and> (\<exists>x\<in>set es. is_p2s_close x) then 1 else 0)
   \<and> SessionsList (proxy (run es (state_of (handle_stream io i strm addr prx))))
       = (if (\<exists>x\<in>set es. is_c2p_close x) \<and> (\<exists>x\<in>set es. is_p2s_close x)
          then SessionsList prx else SessionsList prx @ [i])
   \<and> ((\<exists>x\<in>set es. is_c2p_close x) \<and> (\<exists>x\<in>set es. is_p2s_close x) \<longrightarrow>
        c2p_state (run es (state_of (handle_stream io i strm addr prx))) = CLOSED
        \<and> p2s_state (run es (state_of (handle_stream io i strm addr prx))) = CLOSED)
   \<and> (\<forall>es1 e es2.
        es = es1 @ e # es2
        \<and> remove_session_calls (run (es1 @ [e]) (state_of (handle_stream io i strm addr prx)))
           \<noteq> remove_session_calls (run es1 (state_of (handle_stream io i strm addr prx))) \<longrightarrow>
        ((is_c2p_close e
            \<and> p2s_state (run es1 (state_of (handle_stream io i strm addr prx))) = CLOSED)
         \<or> (is_p2s_close e
            \<and> c2p_state (run es1 (state_of (handle_stream io i strm addr prx))) = CLOSED))
        \<and> \<not> (\<exists>x\<in>set es2. is_c2p_close x \<or> is_p2s_close x))
   \<and> (p2s_state s' \<noteq> CLOSED \<or> c2p_state s' \<noteq> CLOSED \<longrightarrow>
        ProxyServer_remove_session s' = Raise (AssertionError []) s')"
proof -
  let ?init = "state_of (handle_stream io i strm addr prx)"
  have t: "teardown (\<exists>x\<in>set es. is_c2p_close x) (\<exists>x\<in>set es. is_p2s_close x)
             (SessionsList prx) (run es ?init)"
    using teardown_run [OF teardown_init [OF fresh] c p] .
  have s: "sid (run es ?init) = i"
    by (simp add: sid_run sid_init)
  have one: "remove_session_calls (run es ?init)
       = (if (\<exists>x\<in>set es. is_c2p_close x) \<and> (\<exists>x\<in>set es. is_p2s_close x) then 1 else 0)"
    using t by (simp add: teardown_def)
  have two: "SessionsList (proxy (run es ?init))
       = (if (\<exists>x\<in>set es. is_c2p_close x) \<and> (\<exists>x\<in>set es. is_p2s_close x)
          then SessionsList prx else SessionsList prx @ [i])"
    using t s by (simp add: teardown_def)
  have three: "(\<exists>x\<in>set es. is_c2p_close x) \<and> (\<exists>x\<in>set es. is_p2s_close x) \<longrightarrow>
        c2p_state (run es ?init) = CLOSED \<and> p2s_state (run es ?init) = CLOSED"
    using t by (simp add: teardown_def)
  have four: "((is_c2p_close e \<and> p2s_state (run es1 ?init) = CLOSED)
         \<or> (is_p2s_close e \<and> c2p_state (run es1 ?init) = CLOSED))
        \<and> \<not> (\<exists>x\<in>set es2. is_c2p_close x \<or> is_p2s_close x)"
    if "es = es1 @ e # es2"
      and "remove_session_calls (run (es1 @ [e]) ?init) \<noteq> remove_session_calls (run es1 ?init)"
    for es1 e es2
  proof -
    from that(1) c p have c': "length (filter is_c2p_close (es1 @ e # es2)) \<le> 1"
      and p': "length (filter is_p2s_close (es1 @ e # es2)) \<le> 1"
      by simp_all
    from last_close_removes [OF fresh c' p' that(2)] show ?thesis .
  qed
  have five: "p2s_state s' \<noteq> CLOSED \<or> c2p_state s' \<noteq> CLOSED \<longrightarrow>
        ProxyServer_remove_session s' = Raise (AssertionError []) s'"
    by (simp add: ProxyServer_remove_session_def)
  have four': "\<forall>es1 e es2.
        es = es1 @ e # es2
        \<and> remove_session_calls (run (es1 @ [e]) ?init) \<noteq> remove_session_calls (run es1 ?init) \<longrightarrow>
        ((is_c2p_close e \<and> p2s_state (run es1 ?init) = CLOSED)
         \<or> (is_p2s_close e \<and> c2p_state (run es1 ?init) = CLOSED))
        \<and> \<not> (\<exists>x\<in>set es2. is_c2p_close x \<or> is_p2s_close x)"
  proof (intro allI impI)
    fix es1 e es2
    assume h: "es = es1 @ e # es2
        \<and> remove_session_calls (run (es1 @ [e]) ?init) \<noteq> remove_session_calls (run es1 ?init)"
    from four [of es1 e es2] h
    show "((is_c2p_close e \<and> p2s_state (run es1 ?init) = CLOSED)
         \<or> (is_p2s_close e \<and> c2p_state (run es1 ?init) = CLOSED))
        \<and> \<not> (\<exists>x\<in>set es2. is_c2p_close x \<or> is_p2s_close x)"
      by simp
  qed
  show ?thesis
    by (intro conjI) (rule one, rule two, rule three, rule four', rule five)
qed

theorem C4_removed_once_witness:
  "remove_session_calls
     (run [C2P_done_read ''hi'' Completes, P2S_done_connect Completes Completes,
           C2P_close Completes, P2S_done_write Completes, P2S_close Completes]
       (state_of (handle_stream Completes 7 (new_stream IOStream) (''192.0.2.1'', 40000)
          ((ProxyServer_init ''upstream'' 80 PyNone PyNone)\<lparr>SessionsList := [3, 5]\<rparr>)))) = 1
   \<and> SessionsList (proxy
     (run [C2P_done_read ''hi'' Completes, P2S_done_connect Completes Completes,
           C2P_close Completes, P2S_done_write Completes, P2S_close Completes]
       (state_of (handle_stream Completes 7 (new_stream IOStream) (''192.0.2.1'', 40000)
          ((ProxyServer_init ''upstream'' 80 PyNone PyNone)\<lparr>SessionsList := [3, 5]\<rparr>)))))
       = [3, 5]
   \<and> remove_session_calls
     (run [C2P_done_read ''hi'' Completes, P2S_done_connect Completes Completes,
           C2P_close Completes, P2S_done_write Completes]
       (state_of (handle_stream Completes 7 (new_stream IOStream) (''192.0.2.1'', 40000)
          ((ProxyServer_init ''upstream'' 80 PyNone PyNone)\<lparr>SessionsList := [3, 5]\<rparr>)))) = 0
   \<and> SessionsList (proxy
     (run [C2P_done_read ''hi'' Completes, P2S_done_connect Completes Completes,
           C2P_close Completes, P2S_done_write Completes]
       (state_of (handle_stream Completes 7 (new_stream IOStream) (''192.0.2.1'', 40000)
          ((ProxyServer_init ''upstream'' 80 PyNone PyNone)\<lparr>SessionsList := [3, 5]\<rparr>)))))
       = [3, 5, 7]"
  using C4_removed_once
          [of 7 "(ProxyServer_init ''upstream'' 80 PyNone PyNone)\<lparr>SessionsList := [3, 5]\<rparr>"
              "[C2P_done_read ''hi'' Completes, P2S_done_connect Completes Completes,
                C2P_close Completes, P2S_done_write Completes, P2S_close Completes]"
              Completes "new_stream IOStream" "(''192.0.2.1'', 40000)", THEN conjunct1]
        C4_removed_once
          [of 7 "(ProxyServer_init ''upstream'' 80 PyNone PyNone)\<lparr>SessionsList := [3, 5]\<rparr>"
              "[C2P_done_read ''hi'' Completes, P2S_done_connect Completes Completes,
                C2P_close Completes, P2S_done_write Completes]"
              Completes "new_stream IOStream" "(''192.0.2.1'', 40000)", THEN conjunct1]
  by (simp add: example_defs handler_defs io_defs Let_def)

subsection \<open>Stopping the manager\<close>










end
